theory Spec2Isabelle
  imports Complex_Main "HOL-Library.Word" "HOL-Library.Sublist"
begin

section \<open>The timestamp queue of \<^verbatim>\<open>src/utils/TStamp.cxx\<close>\<close>

subsection \<open>Events, diagnostics and the calls the queue makes\<close>

text \<open>
  Modelled from the spec: \<^verbatim>\<open>midas::Event\<close> (\<^verbatim>\<open>midas/Event.hxx\<close> is not among the
  sources). An event carries its event id (a \<^verbatim>\<open>uint16_t\<close>, as \<^verbatim>\<open>EventHandler::Process\<close>
  reads it), its trigger-time in ticks, its serial number and its bank payload (bank tag
  and the words of the bank). Trigger-times are unsigned tick counts; they are kept as
  integers so that differences are the mathematical ones.
\<close>

record Event =
  event_id :: "16 word"
  trigger_time :: int
  serial :: nat
  banks :: "(string \<times> nat list) list"

text \<open>
  Modelled from the spec: \<^verbatim>\<open>Event::GetEventId\<close> (\<^verbatim>\<open>midas/Event.hxx\<close> is not among the
  sources) returns the event id.
\<close>

definition GetEventId :: "Event \<Rightarrow> 16 word" where
  "GetEventId e = event_id e"

text \<open>
  Modelled from the spec: \<^verbatim>\<open>Event::TimeDiff\<close> (\<^verbatim>\<open>midas/Event.hxx\<close> is not among the
  sources), the difference of the two trigger-times, this event minus the other.
\<close>

definition TimeDiff :: "Event \<Rightarrow> Event \<Rightarrow> int" where
  "TimeDiff e other = trigger_time e - trigger_time other"

text \<open>
  \<^verbatim>\<open>tstamp::Diagnostics\<close>: the fields that \<^verbatim>\<open>Diagnostics::reset\<close> and
  \<^verbatim>\<open>FillDiagnostics\<close> write. \<^verbatim>\<open>n_singles\<close> is an array of \<^verbatim>\<open>MAX_TYPES\<close> counters;
  the constant is declared in \<^verbatim>\<open>TStamp.hxx\<close>, which is not among the sources, and is a
  parameter here. The field \<^verbatim>\<open>size\<close> is named \<open>size_d\<close>.
\<close>

record Diagnostics =
  size_d :: nat
  n_coinc :: int
  time_diff :: int
  n_singles :: "int list"

definition Diagnostics_reset :: "int \<Rightarrow> Diagnostics" where
  "Diagnostics_reset MAX_TYPES =
     \<lparr>size_d = 0, n_coinc = 0, time_diff = 0, n_singles = replicate (nat MAX_TYPES) 0\<rparr>"

text \<open>
  The queue acts on the outside through virtual methods and the message streams. Each
  call is recorded, in order, in a list.
\<close>

datatype call =
    HandleCoinc Event Event
  | HandleSingle Event
  | HandleDiagnostics Diagnostics
  | FlushTimeoutMessage int nat
  | Warning_singles_id int int
  | Error_insert

text \<open>
  What can go wrong: a write outside the \<^verbatim>\<open>n_singles\<close> array, and the exception that
  \<^verbatim>\<open>Push\<close> rethrows when the second insertion fails as well.
\<close>

datatype fault = OutOfRange | Rethrown

subsection \<open>The ordered container\<close>

text \<open>
  Modelled from the spec: the comparison of the container \<^verbatim>\<open>fEvents\<close> (the \<^verbatim>\<open>MultiSet_t\<close>
  type and its comparison are declared in \<^verbatim>\<open>TStamp.hxx\<close> and \<^verbatim>\<open>midas/Event.hxx\<close>, not among
  the sources). Two events are equivalent when their trigger-times differ by at most the
  coincidence window \<open>W\<close>; the source of an event plays no part in it. This is what the
  doc comment of \<^verbatim>\<open>Pop\<close> says of the equal range of the first event: all events with
  trigger times within the trigger window.
\<close>

definition in_window :: "int \<Rightarrow> Event \<Rightarrow> Event \<Rightarrow> bool" where
  "in_window W e0 e = (\<bar>TimeDiff e e0\<bar> \<le> W)"

text \<open>
  Modelled from the spec: the order of the container. \<^verbatim>\<open>Push\<close> inserts into the same
  \<^verbatim>\<open>std::multiset\<close> of which \<^verbatim>\<open>Pop\<close> takes the equal range, so one comparison serves
  both: an event comes before another when its trigger-time is earlier and the two are
  not equivalent, that is when it is earlier by more than \<open>W\<close>.
\<close>

definition event_less :: "int \<Rightarrow> Event \<Rightarrow> Event \<Rightarrow> bool" where
  "event_less W a b = (trigger_time a < trigger_time b \<and> \<not> in_window W a b)"

text \<open>
  Modelled from the spec: \<^verbatim>\<open>fEvents.insert(event)\<close> on that container. The buffer is the
  sequence of the container from \<^verbatim>\<open>begin()\<close> on. \<^verbatim>\<open>std::multiset::insert\<close> puts the new
  element at the upper bound: in front of the first buffered event that the comparison
  places after it, behind every event before that, and so behind the buffered events that
  are equivalent to it. An event that arrives late but within \<open>W\<close> of a buffered one is
  therefore placed behind it, and the buffer is in trigger-time order only up to \<open>W\<close>.
\<close>

fun insert_event :: "int \<Rightarrow> Event \<Rightarrow> Event list \<Rightarrow> Event list" where
  "insert_event W e [] = [e]"
| "insert_event W e (x # xs) =
     (if event_less W e x then e # x # xs else x # insert_event W e xs)"

text \<open>
  Modelled from the spec: \<^verbatim>\<open>fEvents.equal_range(*fEvents.begin())\<close> on that container,
  the maximal prefix of the buffer whose trigger-times lie within \<open>W\<close> of the first
  event. Each match is paired with its position in the buffer, which stands for the
  iterator.
\<close>

definition equal_range_begin :: "int \<Rightarrow> Event list \<Rightarrow> (nat \<times> Event) list" where
  "equal_range_begin W fEvents =
     takeWhile (\<lambda>(i, e). in_window W (hd fEvents) e) (enumerate 0 fEvents)"

text \<open>
  Modelled from the spec: the latest and the earliest trigger-time in the buffer, and
  their difference, the buffered time span (\<^verbatim>\<open>TStamp.hxx\<close>, where the queue computes it, is
  not among the sources).
\<close>

fun max_time_of :: "Event list \<Rightarrow> int" where
  "max_time_of [] = 0"
| "max_time_of [e] = trigger_time e"
| "max_time_of (e # es) = max (trigger_time e) (max_time_of es)"

fun min_time_of :: "Event list \<Rightarrow> int" where
  "min_time_of [] = 0"
| "min_time_of [e] = trigger_time e"
| "min_time_of (e # es) = min (trigger_time e) (min_time_of es)"

definition span :: "Event list \<Rightarrow> int" where
  "span fEvents = max_time_of fEvents - min_time_of fEvents"

text \<open>
  Modelled from the spec: \<^verbatim>\<open>Queue::IsFull\<close> (declared in \<^verbatim>\<open>TStamp.hxx\<close>, not among the
  sources): the buffered time span exceeds \<open>T\<close>.
\<close>

definition IsFull :: "int \<Rightarrow> Event list \<Rightarrow> bool" where
  "IsFull T fEvents = (span fEvents > T)"

subsection \<open>Pop\<close>

text \<open>
  The loop of \<^verbatim>\<open>Pop\<close> over the matches: a match that is not the first element of the
  buffer sets \<^verbatim>\<open>found_coinc\<close> and is handed to \<^verbatim>\<open>HandleCoinc\<close> together with the first
  element. Nothing else is tested.
\<close>

fun Pop_loop :: "Event \<Rightarrow> (nat \<times> Event) list \<Rightarrow> bool \<Rightarrow> call list \<Rightarrow> bool \<times> call list" where
  "Pop_loop e0 [] found_coinc out = (found_coinc, out)"
| "Pop_loop e0 ((itMatch, m) # matches) found_coinc out =
     (if itMatch \<noteq> 0 then Pop_loop e0 matches True (out @ [HandleCoinc e0 m])
      else Pop_loop e0 matches found_coinc out)"

text \<open>
  \<^verbatim>\<open>Pop\<close> returns \<^verbatim>\<open>singles_id\<close>, \<^verbatim>\<open>found_coinc\<close>, the buffer afterwards and the calls
  made. \<^verbatim>\<open>singles_id\<close> is an \<^verbatim>\<open>int32_t\<close>, which holds \<open>-1\<close> and every 16-bit event id.
\<close>

definition Pop :: "int \<Rightarrow> Event list \<Rightarrow> int \<times> bool \<times> Event list \<times> call list" where
  "Pop W fEvents =
     (if fEvents = [] then (-1, False, fEvents, [])
      else
        (case Pop_loop (hd fEvents) (equal_range_begin W fEvents) False [] of
           (found_coinc, out) \<Rightarrow>
             (uint (GetEventId (hd fEvents)), found_coinc, tl fEvents,
              out @ [HandleSingle (hd fEvents)])))"

subsection \<open>FillDiagnostics\<close>

text \<open>
  \<^verbatim>\<open>n_singles[singles_id] += 1\<close> on a C array: an index outside the array is a fault.
\<close>

definition array_incr :: "int list \<Rightarrow> int \<Rightarrow> fault + int list" where
  "array_incr a i =
     (if 0 \<le> i \<and> i < int (length a) then Inr (a[nat i := a ! nat i + 1])
      else Inl OutOfRange)"

text \<open>
  \<^verbatim>\<open>FillDiagnostics\<close>; \<open>sz\<close> is what \<^verbatim>\<open>Size()\<close> returns at the call, \<open>None\<close> is the null
  pointer. The result is the diagnostics object afterwards and the warnings written.
\<close>

definition FillDiagnostics ::
  "int \<Rightarrow> nat \<Rightarrow> Diagnostics option \<Rightarrow> int \<Rightarrow> bool \<Rightarrow> int \<Rightarrow> fault + (Diagnostics option \<times> call list)" where
  "FillDiagnostics MAX_TYPES sz d tdiff have_coinc singles_id =
     (case d of
        None \<Rightarrow> Inr (None, [])
      | Some d0 \<Rightarrow>
          (let d1 = d0\<lparr>size_d := sz, time_diff := tdiff\<rparr>;
               d2 = (if have_coinc then d1\<lparr>n_coinc := n_coinc d1 + 1\<rparr> else d1)
           in if singles_id \<ge> 0 \<and> singles_id < MAX_TYPES then
                (case array_incr (n_singles d2) singles_id of
                   Inl f \<Rightarrow> Inl f
                 | Inr a \<Rightarrow> Inr (Some (d2\<lparr>n_singles := a\<rparr>), []))
              else if singles_id > 0 then
                Inr (Some d2, [Warning_singles_id singles_id MAX_TYPES])
              else Inr (Some d2, [])))"

subsection \<open>Flush\<close>

text \<open>
  The loop of \<^verbatim>\<open>Flush\<close>. The wall clock is an input: \<open>clock k\<close> is what \<^verbatim>\<open>time(0)\<close>
  returns at the \<open>k\<close>-th reading (the reading is only taken when \<^verbatim>\<open>max_time > 0\<close>), and
  \<^verbatim>\<open>difftime\<close> is the difference in whole seconds. Every round either pops one event or
  clears the buffer, so the loop ends.
\<close>

function Flush_loop ::
  "int \<Rightarrow> int \<Rightarrow> int \<Rightarrow> int \<Rightarrow> (nat \<Rightarrow> int) \<Rightarrow> nat \<Rightarrow> Diagnostics option \<Rightarrow> Event list \<Rightarrow> call list
     \<Rightarrow> fault + (Event list \<times> Diagnostics option \<times> call list)" where
  "Flush_loop MAX_TYPES W max_time t_begin clock k diagnostics fEvents out =
     (if fEvents = [] then Inr (fEvents, diagnostics, out)
      else if max_time > 0 \<and> clock k - t_begin < max_time then
        (case Pop W fEvents of
           (singlesId, haveCoinc, q, out1) \<Rightarrow>
             (case diagnostics of
                None \<Rightarrow>
                  Flush_loop MAX_TYPES W max_time t_begin clock (Suc k) None q (out @ out1)
              | Some d \<Rightarrow>
                  (case FillDiagnostics MAX_TYPES (length q) diagnostics 0 haveCoinc singlesId of
                     Inl f \<Rightarrow> Inl f
                   | Inr (d1, w) \<Rightarrow>
                       Flush_loop MAX_TYPES W max_time t_begin clock (Suc k) d1 q
                         (out @ out1 @ w @
                          (case d1 of None \<Rightarrow> [] | Some dd \<Rightarrow> [HandleDiagnostics dd])))))
      else
        Flush_loop MAX_TYPES W max_time t_begin clock (Suc k) diagnostics []
          (out @ [FlushTimeoutMessage max_time (length fEvents)]))"
  by pat_completeness auto
termination
  by (relation "measure (\<lambda>(M, W, mt, tb, clock, k, d, q, out). length q)")
     (auto simp: Pop_def split: if_splits prod.splits)

declare Flush_loop.simps [simp del]

definition Flush ::
  "int \<Rightarrow> int \<Rightarrow> int \<Rightarrow> (nat \<Rightarrow> int) \<Rightarrow> Diagnostics option \<Rightarrow> Event list
     \<Rightarrow> fault + (Event list \<times> Diagnostics option \<times> call list)" where
  "Flush MAX_TYPES W max_time clock diagnostics fEvents =
     Flush_loop MAX_TYPES W max_time (clock 0) clock 1 diagnostics fEvents []"

subsection \<open>Push\<close>

text \<open>
  The first half of \<^verbatim>\<open>Push\<close>, the insertion. Whether \<^verbatim>\<open>std::multiset::insert\<close> throws
  is decided by the allocator: \<open>nfail\<close> is the number of insertion attempts of this call
  that throw. After the first failure an error is written, the queue is flushed with
  \<^verbatim>\<open>Flush(-1, diagnostics)\<close> and the insertion tried again; a second failure is rethrown.
\<close>

definition Push_insert ::
  "int \<Rightarrow> int \<Rightarrow> (nat \<Rightarrow> int) \<Rightarrow> nat \<Rightarrow> Event \<Rightarrow> Diagnostics option \<Rightarrow> Event list
     \<Rightarrow> fault + (Event list \<times> Diagnostics option \<times> call list)" where
  "Push_insert MAX_TYPES W clock nfail event diagnostics fEvents =
     (if nfail = 0 then Inr (insert_event W event fEvents, diagnostics, [])
      else
        (case Flush MAX_TYPES W (-1) clock diagnostics fEvents of
           Inl f \<Rightarrow> Inl f
         | Inr (q, d, out) \<Rightarrow>
             if nfail = 1 then Inr (insert_event W event q, d, Error_insert # out)
             else Inl Rethrown))"

text \<open>
  The second half of \<^verbatim>\<open>Push\<close>: the time difference between the new event and the first
  buffered event is taken, \<^verbatim>\<open>Pop\<close> is called if \<^verbatim>\<open>IsFull()\<close>, and the diagnostics are
  filled and handled when the pointer is not null.
\<close>

definition Push_drain ::
  "int \<Rightarrow> int \<Rightarrow> int \<Rightarrow> Event \<Rightarrow> Diagnostics option \<Rightarrow> Event list
     \<Rightarrow> fault + (Event list \<times> Diagnostics option \<times> call list)" where
  "Push_drain MAX_TYPES W T event diagnostics fEvents =
     (let tdiff = TimeDiff event (hd fEvents) in
      case (if IsFull T fEvents then Pop W fEvents else (-1, False, fEvents, [])) of
        (singlesId, haveCoinc, q, out) \<Rightarrow>
          (case diagnostics of
             None \<Rightarrow> Inr (q, None, out)
           | Some d0 \<Rightarrow>
               (case FillDiagnostics MAX_TYPES (length q) diagnostics tdiff haveCoinc singlesId of
                  Inl f \<Rightarrow> Inl f
                | Inr (d1, w) \<Rightarrow>
                    Inr (q, d1, out @ w @
                      (case d1 of None \<Rightarrow> [] | Some dd \<Rightarrow> [HandleDiagnostics dd])))))"

definition Push ::
  "int \<Rightarrow> int \<Rightarrow> int \<Rightarrow> (nat \<Rightarrow> int) \<Rightarrow> nat \<Rightarrow> Event \<Rightarrow> Diagnostics option \<Rightarrow> Event list
     \<Rightarrow> fault + (Event list \<times> Diagnostics option \<times> call list)" where
  "Push MAX_TYPES W T clock nfail event diagnostics fEvents =
     (case Push_insert MAX_TYPES W clock nfail event diagnostics fEvents of
        Inl f \<Rightarrow> Inl f
      | Inr (q, d, out) \<Rightarrow>
          (case Push_drain MAX_TYPES W T event d q of
             Inl f \<Rightarrow> Inl f
           | Inr (q1, d1, out1) \<Rightarrow> Inr (q1, d1, out @ out1)))"

subsection \<open>Sequences of operations\<close>

text \<open>
  A client calls \<^verbatim>\<open>Push\<close>, \<^verbatim>\<open>Pop\<close> and \<^verbatim>\<open>Flush\<close> in some order on one queue. The state
  is the buffer, the diagnostics object handed to every call and the calls made so far.
\<close>

datatype op = PushOp Event nat "nat \<Rightarrow> int" | PopOp | FlushOp int "nat \<Rightarrow> int"

type_synonym qstate = "Event list \<times> Diagnostics option \<times> call list"

fun step :: "int \<Rightarrow> int \<Rightarrow> int \<Rightarrow> op \<Rightarrow> qstate \<Rightarrow> fault + qstate" where
  "step MAX_TYPES W T (PushOp e nfail clock) (q, d, out) =
     (case Push MAX_TYPES W T clock nfail e d q of
        Inl f \<Rightarrow> Inl f
      | Inr (q1, d1, out1) \<Rightarrow> Inr (q1, d1, out @ out1))"
| "step MAX_TYPES W T PopOp (q, d, out) =
     (case Pop W q of (singles_id, found_coinc, q1, out1) \<Rightarrow> Inr (q1, d, out @ out1))"
| "step MAX_TYPES W T (FlushOp max_time clock) (q, d, out) =
     (case Flush MAX_TYPES W max_time clock d q of
        Inl f \<Rightarrow> Inl f
      | Inr (q1, d1, out1) \<Rightarrow> Inr (q1, d1, out @ out1))"

fun run :: "int \<Rightarrow> int \<Rightarrow> int \<Rightarrow> op list \<Rightarrow> qstate \<Rightarrow> fault + qstate" where
  "run MAX_TYPES W T [] s = Inr s"
| "run MAX_TYPES W T (x # xs) s =
     (case step MAX_TYPES W T x s of Inl f \<Rightarrow> Inl f | Inr s1 \<Rightarrow> run MAX_TYPES W T xs s1)"



fun is_push :: "op \<Rightarrow> bool" where
  "is_push (PushOp e nfail clock) = True"
| "is_push x = False"








text \<open>
  A diagnostics object is well formed when its \<^verbatim>\<open>n_singles\<close> array has \<^verbatim>\<open>MAX_TYPES\<close>
  entries; a \<^verbatim>\<open>Push\<close> is survivable when the insertion does not fail twice.
\<close>

definition diag_ok :: "int \<Rightarrow> Diagnostics option \<Rightarrow> bool" where
  "diag_ok MAX_TYPES d =
     (case d of None \<Rightarrow> True | Some d0 \<Rightarrow> length (n_singles d0) = nat MAX_TYPES)"

fun op_ok :: "op \<Rightarrow> bool" where
  "op_ok (PushOp e nfail clock) = (nfail \<le> 1)"
| "op_ok x = True"

section \<open>The VME module collections of \<^verbatim>\<open>src/Modules.cxx\<close>\<close>

text \<open>
  The module classes (\<^verbatim>\<open>vme/vme.hxx\<close>) are not among the sources. \<^verbatim>\<open>Modules.cxx\<close> reads
  \<^verbatim>\<open>data[ch]\<close> of an ADC or TDC as an \<^verbatim>\<open>int16_t\<close> and \<^verbatim>\<open>io32.tstamp\<close> as an
  \<^verbatim>\<open>int32_t\<close>, so a module is the array of its channels and the IO32 is its time stamp.
\<close>

record gamma_Modules =
  v792 :: "16 word list"
  gamma_v1190b :: "16 word list"
  gamma_io32_tstamp :: "32 word"

record hion_Modules =
  v785 :: "16 word list list"
  hion_v1190b :: "16 word list"
  hion_io32_tstamp :: "32 word"

text \<open>
  Modelled from the spec: \<^verbatim>\<open>vme::reset\<close>, which sets every channel of a module to the
  no-data value \<^verbatim>\<open>vme::NONE\<close> (a parameter here).
\<close>

definition vme_reset :: "16 word \<Rightarrow> 16 word list \<Rightarrow> 16 word list" where
  "vme_reset NONE chans = map (\<lambda>ch. NONE) chans"

definition gamma_reset :: "16 word \<Rightarrow> gamma_Modules \<Rightarrow> gamma_Modules" where
  "gamma_reset NONE m =
     m\<lparr>v792 := vme_reset NONE (v792 m), gamma_v1190b := vme_reset NONE (gamma_v1190b m)\<rparr>"

text \<open>
  \<^verbatim>\<open>dragon::gamma::Modules::unpack\<close>: two ADC banks and two TDC banks are decoded into
  the modules; the call for the IO32 bank is commented out. The decoders
  \<^verbatim>\<open>vme::caen::unpack_adc\<close> and \<^verbatim>\<open>vme::caen::unpack_v1190\<close> are not among the sources and
  are parameters.
\<close>

definition gamma_unpack ::
  "(Event \<Rightarrow> string \<Rightarrow> 16 word list \<Rightarrow> 16 word list) \<Rightarrow>
   (Event \<Rightarrow> string \<Rightarrow> 16 word list \<Rightarrow> 16 word list) \<Rightarrow> Event \<Rightarrow> gamma_Modules \<Rightarrow> gamma_Modules" where
  "gamma_unpack unpack_adc unpack_v1190 event m =
     (let m1 = m\<lparr>v792 := unpack_adc event ''VADC'' (v792 m)\<rparr>;
          m2 = m1\<lparr>v792 := unpack_adc event ''ADC0'' (v792 m1)\<rparr>;
          m3 = m2\<lparr>gamma_v1190b := unpack_v1190 event ''VTDC'' (gamma_v1190b m2)\<rparr>
      in m3\<lparr>gamma_v1190b := unpack_v1190 event ''TDC0'' (gamma_v1190b m3)\<rparr>)"

definition gamma_tstamp :: "gamma_Modules \<Rightarrow> 32 word" where
  "gamma_tstamp m = gamma_io32_tstamp m"

definition hion_reset :: "16 word \<Rightarrow> hion_Modules \<Rightarrow> hion_Modules" where
  "hion_reset NONE m =
     m\<lparr>v785 := map (vme_reset NONE) (v785 m), hion_v1190b := vme_reset NONE (hion_v1190b m)\<rparr>"

text \<open>
  \<^verbatim>\<open>dragon::hion::Modules::unpack\<close>: every statement of the body is inside a comment, so
  the function returns with the modules as they were.
\<close>

definition hion_unpack :: "Event \<Rightarrow> hion_Modules \<Rightarrow> hion_Modules" where
  "hion_unpack event m = m"

definition hion_tstamp :: "hion_Modules \<Rightarrow> 32 word" where
  "hion_tstamp m = hion_io32_tstamp m"

section \<open>The event handler of \<^verbatim>\<open>src/rootana/Events.cxx\<close>\<close>

text \<open>
  \<^verbatim>\<open>dragon::Scaler\<close> (\<^verbatim>\<open>Dragon.hxx\<close>): three arrays of \<^verbatim>\<open>MAX_CHANNELS = 17\<close> entries;
  \<^verbatim>\<open>rate\<close> is a \<^verbatim>\<open>double\<close>, kept as a real number.
\<close>

record Scaler =
  count :: "32 word list"
  sum_s :: "32 word list"
  rate :: "real list"

definition MAX_CHANNELS :: nat where
  "MAX_CHANNELS = 17"

text \<open>
  Modelled from the spec: the event ids of \<^verbatim>\<open>utils/definitions.h\<close> (not among the
  sources). The id of a head singles event is 1.
\<close>

definition DRAGON_HEAD_EVENT :: "16 word" where
  "DRAGON_HEAD_EVENT = 1"

text \<open>Modelled from the spec: the id of a head scaler event (\<^verbatim>\<open>utils/definitions.h\<close>) is 2.\<close>

definition DRAGON_HEAD_SCALER :: "16 word" where
  "DRAGON_HEAD_SCALER = 2"

text \<open>Modelled from the spec: the id of a tail singles event (\<^verbatim>\<open>utils/definitions.h\<close>) is 3.\<close>

definition DRAGON_TAIL_EVENT :: "16 word" where
  "DRAGON_TAIL_EVENT = 3"

text \<open>Modelled from the spec: the id of a tail scaler event (\<^verbatim>\<open>utils/definitions.h\<close>) is 4.\<close>

definition DRAGON_TAIL_SCALER :: "16 word" where
  "DRAGON_TAIL_SCALER = 4"

text \<open>
  \<^verbatim>\<open>handle_event\<close>: reset, unpack, calculate. The three methods of \<^verbatim>\<open>dragon::Head\<close>
  and \<^verbatim>\<open>dragon::Tail\<close> are only declared in the sources, so they are parameters.
\<close>

record 'd detector_ops =
  reset_op :: "'d \<Rightarrow> 'd"
  unpack_op :: "Event \<Rightarrow> 'd \<Rightarrow> 'd"
  calculate_op :: "'d \<Rightarrow> 'd"

definition handle_event :: "'d detector_ops \<Rightarrow> 'd \<Rightarrow> Event \<Rightarrow> 'd" where
  "handle_event ops data buf = calculate_op ops (unpack_op ops buf (reset_op ops data))"

text \<open>
  What \<^verbatim>\<open>Process\<close> can reach: the globals \<^verbatim>\<open>gHead\<close> and \<^verbatim>\<open>gTail\<close>, the map \<^verbatim>\<open>fHistos\<close>
  from event id to the list of histograms (a histogram is named by a number), and the
  histograms themselves, of which the sequence of \<^verbatim>\<open>fill()\<close> calls is kept. The scaler
  objects of the program are part of the state as well; no statement of \<^verbatim>\<open>Process\<close>
  names one.
\<close>

record ('h, 't) handler_state =
  gHead :: 'h
  gTail :: 't
  scalers :: "Scaler list"
  fHistos :: "16 word \<rightharpoonup> nat list"
  fills :: "nat list"

text \<open>\<^verbatim>\<open>fHistos[EID]\<close> on a \<^verbatim>\<open>std::map\<close> creates an empty list for a key that is absent.\<close>

definition fHistos_at :: "16 word \<Rightarrow> (16 word \<rightharpoonup> nat list) \<Rightarrow> (16 word \<rightharpoonup> nat list) \<times> nat list" where
  "fHistos_at EID m = (case m EID of None \<Rightarrow> (m(EID \<mapsto> []), []) | Some hs \<Rightarrow> (m, hs))"

definition fill_histos :: "16 word \<Rightarrow> ('h, 't) handler_state \<Rightarrow> ('h, 't) handler_state" where
  "fill_histos EID s =
     (case fHistos_at EID (fHistos s) of
        (m, hs) \<Rightarrow> s\<lparr>fHistos := m, fills := fills s @ hs\<rparr>)"

definition Process ::
  "'h detector_ops \<Rightarrow> 't detector_ops \<Rightarrow> Event \<Rightarrow> ('h, 't) handler_state \<Rightarrow> ('h, 't) handler_state" where
  "Process head_ops tail_ops event s =
     (let EID = GetEventId event in
      if EID = DRAGON_HEAD_EVENT then
        fill_histos EID (s\<lparr>gHead := handle_event head_ops (gHead s) event\<rparr>)
      else if EID = DRAGON_TAIL_EVENT then
        fill_histos EID (s\<lparr>gTail := handle_event tail_ops (gTail s) event\<rparr>)
      else if EID = DRAGON_HEAD_SCALER then s
      else if EID = DRAGON_TAIL_SCALER then s
      else s)"

section \<open>Events used in the examples\<close>

text \<open>An event with the given id, trigger-time and serial number, and no banks.\<close>

definition mk_event :: "16 word \<Rightarrow> int \<Rightarrow> nat \<Rightarrow> Event" where
  "mk_event i t n = \<lparr>event_id = i, trigger_time = t, serial = n, banks = []\<rparr>"

section \<open>Properties of Pop\<close>

subsection \<open>The calls of one Pop\<close>





text \<open>Every match after the first element of the buffer is handed to \<^verbatim>\<open>HandleCoinc\<close>.\<close>

lemma Pop_loop_enumerate:
  "Pop_loop e0 (enumerate (Suc n) xs) found out =
     (found \<or> xs \<noteq> [], out @ map (HandleCoinc e0) xs)"
  by (induction xs arbitrary: n found out) auto

lemma takeWhile_enumerate:
  "takeWhile (\<lambda>(i, e). P e) (enumerate n xs) = enumerate n (takeWhile P xs)"
  by (induction xs arbitrary: n) auto

lemma in_window_self: "in_window W e e = (0 \<le> W)"
  by (simp add: in_window_def TimeDiff_def)

lemma in_window_neg: "W < 0 \<Longrightarrow> \<not> in_window W e0 e"
  by (simp add: in_window_def)

lemma takeWhile_in_window_neg: "W < 0 \<Longrightarrow> takeWhile (in_window W e0) xs = []"
  by (cases xs) (simp_all add: in_window_neg)

text \<open>
  \<^verbatim>\<open>Pop\<close> on a buffer with first element \<open>e0\<close>, for any buffer: the partners are the
  events that follow \<open>e0\<close> up to the first one outside the window.
\<close>

lemma Pop_Cons:
  "Pop W (e0 # rest) =
     (uint (event_id e0), takeWhile (in_window W e0) rest \<noteq> [], rest,
      map (HandleCoinc e0) (takeWhile (in_window W e0) rest) @ [HandleSingle e0])"
proof (cases "0 \<le> W")
  case True
  then have "equal_range_begin W (e0 # rest) =
      (0, e0) # enumerate (Suc 0) (takeWhile (in_window W e0) rest)"
    by (simp add: equal_range_begin_def in_window_self takeWhile_enumerate)
  then show ?thesis
    by (simp add: Pop_def GetEventId_def Pop_loop_enumerate)
next
  case False
  then have "equal_range_begin W (e0 # rest) = []"
    by (simp add: equal_range_begin_def in_window_self)
  with False show ?thesis
    by (simp add: Pop_def GetEventId_def takeWhile_in_window_neg)
qed

text \<open>
  C8. \<^verbatim>\<open>Pop\<close> on an empty queue sets \<^verbatim>\<open>singles_id\<close> to \<open>-1\<close> and \<^verbatim>\<open>found_coinc\<close> to
  false, calls neither \<^verbatim>\<open>HandleSingle\<close> nor \<^verbatim>\<open>HandleCoinc\<close> (it makes no call at all) and
  leaves the queue empty.
\<close>

theorem Pop_empty: "Pop W [] = (-1, False, [], [])"
  by (simp add: Pop_def)




section \<open>Properties of FillDiagnostics\<close>

text \<open>
  C9. With \<^verbatim>\<open>n_singles\<close> an array of \<^verbatim>\<open>MAX_TYPES\<close> counters, \<^verbatim>\<open>FillDiagnostics\<close> never
  writes outside the array, for any value of \<^verbatim>\<open>singles_id\<close>: it returns normally; the
  counter at \<^verbatim>\<open>singles_id\<close> is incremented when \<open>0 \<le> singles_id < MAX_TYPES\<close> and no
  counter is written otherwise; the only effect of an id at or above \<^verbatim>\<open>MAX_TYPES\<close> is a
  warning. With a null pointer nothing is written at all.
\<close>

theorem FillDiagnostics_in_range:
  assumes "length (n_singles d) = nat MAX_TYPES"
  shows "(\<exists>d1 w. FillDiagnostics MAX_TYPES sz (Some d) tdiff have_coinc singles_id = Inr (Some d1, w)
           \<and> n_singles d1 =
               (if 0 \<le> singles_id \<and> singles_id < MAX_TYPES
                then (n_singles d)[nat singles_id := n_singles d ! nat singles_id + 1]
                else n_singles d)
           \<and> w = (if MAX_TYPES \<le> singles_id \<and> 0 < singles_id
                   then [Warning_singles_id singles_id MAX_TYPES] else []))
       \<and> FillDiagnostics MAX_TYPES sz None tdiff have_coinc singles_id = Inr (None, [])"
proof (cases "0 \<le> singles_id \<and> singles_id < MAX_TYPES")
  case True
  with assms have "singles_id < int (length (n_singles d))" by simp
  with True show ?thesis
    by (simp add: FillDiagnostics_def array_incr_def Let_def)
next
  case False
  then show ?thesis
    by (auto simp: FillDiagnostics_def Let_def)
qed

theorem FillDiagnostics_in_range_witness:
  "length (n_singles (Diagnostics_reset 4)) = nat 4
   \<and> FillDiagnostics 4 2 (Some (Diagnostics_reset 4)) 7 True 3 =
       Inr (Some \<lparr>size_d = 2, n_coinc = 1, time_diff = 7, n_singles = [0, 0, 0, 1]\<rparr>, [])
   \<and> FillDiagnostics 4 2 (Some (Diagnostics_reset 4)) 7 True 4 =
       Inr (Some \<lparr>size_d = 2, n_coinc = 1, time_diff = 7, n_singles = [0, 0, 0, 0]\<rparr>,
            [Warning_singles_id 4 4])
   \<and> FillDiagnostics 4 2 (Some (Diagnostics_reset 4)) 7 True (-1) =
       Inr (Some \<lparr>size_d = 2, n_coinc = 1, time_diff = 7, n_singles = [0, 0, 0, 0]\<rparr>, [])"
proof -
  have l: "length (n_singles (Diagnostics_reset 4)) = nat 4"
    by (simp add: Diagnostics_reset_def)
  have r: "replicate (nat 4) (0::int) = [0, 0, 0, 0]"
    by (simp add: eval_nat_numeral)
  from FillDiagnostics_in_range [OF l, of 2 7 True 3]
       FillDiagnostics_in_range [OF l, of 2 7 True 4]
       FillDiagnostics_in_range [OF l, of 2 7 True "-1"] l r
  show ?thesis
    by (simp add: FillDiagnostics_def array_incr_def Diagnostics_reset_def Let_def)
qed

section \<open>Properties of Flush, Push and sequences of operations\<close>

subsection \<open>What one operation does to the buffer and to the singles\<close>


lemma Flush_loop_Nil:
  "Flush_loop M W mt tb clock k d [] out = Inr ([], d, out)"
  by (simp add: Flush_loop.simps)

lemma Flush_loop_Cons:
  "Flush_loop M W mt tb clock k d (e0 # rest) out =
     (if mt > 0 \<and> clock k - tb < mt then
        (case d of
           None \<Rightarrow>
             Flush_loop M W mt tb clock (Suc k) None rest
               (out @ map (HandleCoinc e0) (takeWhile (in_window W e0) rest) @ [HandleSingle e0])
         | Some d0 \<Rightarrow>
             (case FillDiagnostics M (length rest) d 0
                     (takeWhile (in_window W e0) rest \<noteq> []) (uint (event_id e0)) of
                Inl f \<Rightarrow> Inl f
              | Inr (d1, w) \<Rightarrow>
                  Flush_loop M W mt tb clock (Suc k) d1 rest
                    (out @ (map (HandleCoinc e0) (takeWhile (in_window W e0) rest)
                            @ [HandleSingle e0]) @ w @
                     (case d1 of None \<Rightarrow> [] | Some dd \<Rightarrow> [HandleDiagnostics dd]))))
      else Inr ([], d, out @ [FlushTimeoutMessage mt (Suc (length rest))]))"
  by (subst Flush_loop.simps) (simp add: Pop_Cons Flush_loop_Nil)




lemma Flush_nonpositive:
  "mt \<le> 0 \<Longrightarrow> Flush M W mt clock d q =
     Inr ([], d, if q = [] then [] else [FlushTimeoutMessage mt (length q)])"
  by (cases q) (simp_all add: Flush_def Flush_loop_Nil Flush_loop_Cons)








subsection \<open>The buffer stays in the order of the container\<close>











subsection \<open>Events of one trigger-time keep their order of arrival\<close>









subsection \<open>Every operation returns\<close>

text \<open>
  With a well-formed diagnostics object (or none) no call writes outside \<^verbatim>\<open>n_singles\<close>,
  and unless an insertion fails twice nothing is rethrown: every sequence of operations
  returns.
\<close>

lemma FillDiagnostics_returns:
  assumes "diag_ok M d"
  shows "\<exists>d1 w. FillDiagnostics M sz d tdiff hc sid = Inr (d1, w) \<and> diag_ok M d1"
proof (cases d)
  case None
  then show ?thesis by (simp add: FillDiagnostics_def diag_ok_def)
next
  case (Some d0)
  with assms have l: "length (n_singles d0) = nat M" by (simp add: diag_ok_def)
  show ?thesis
  proof (cases "0 \<le> sid \<and> sid < M")
    case True
    with l have "sid < int (length (n_singles d0))" by simp
    with True Some l show ?thesis
      by (simp add: FillDiagnostics_def array_incr_def Let_def diag_ok_def)
  next
    case False
    with Some l show ?thesis
      by (auto simp: FillDiagnostics_def Let_def diag_ok_def)
  qed
qed

lemma Flush_loop_returns:
  "diag_ok M d \<Longrightarrow>
   \<exists>d' out'. Flush_loop M W mt tb clock k d q out = Inr ([], d', out') \<and> diag_ok M d'"
proof (induction q arbitrary: k d out)
  case Nil
  then show ?case by (simp add: Flush_loop_Nil)
next
  case (Cons e0 rest)
  show ?case
  proof (cases "mt > 0 \<and> clock k - tb < mt")
    case False
    then have "Flush_loop M W mt tb clock k d (e0 # rest) out =
        Inr ([], d, out @ [FlushTimeoutMessage mt (Suc (length rest))])"
      by (subst Flush_loop_Cons) (simp only: if_False)
    with Cons.prems show ?thesis by simp
  next
    case True
    show ?thesis
    proof (cases d)
      case None
      with True Cons.IH [OF Cons.prems [unfolded None]] show ?thesis
        by (simp add: Flush_loop_Cons)
    next
      case (Some d0)
      from FillDiagnostics_returns [OF Cons.prems] obtain d1 w where
        f: "FillDiagnostics M (length rest) d 0
              (takeWhile (in_window W e0) rest \<noteq> []) (uint (event_id e0)) = Inr (d1, w)"
        and ok: "diag_ok M d1" by blast
      from True Some f Cons.IH [OF ok] show ?thesis
        by (simp add: Flush_loop_Cons)
    qed
  qed
qed

lemma Push_drain_returns:
  assumes "diag_ok M d"
  shows "\<exists>q' d' out'. Push_drain M W T e d q = Inr (q', d', out') \<and> diag_ok M d'"
proof -
  obtain sid hc q1 out1 where
    p: "(if IsFull T q then Pop W q else (-1, False, q, [])) = (sid, hc, q1, out1)"
    by (metis prod_cases4)
  show ?thesis
  proof (cases d)
    case None
    then show ?thesis
      unfolding Push_drain_def Let_def p by (simp add: diag_ok_def)
  next
    case (Some d0)
    from FillDiagnostics_returns [OF assms] obtain d1 w where
      "FillDiagnostics M (length q1) d (TimeDiff e (hd q)) hc sid = Inr (d1, w)"
      and "diag_ok M d1" by blast
    with Some show ?thesis
      unfolding Push_drain_def Let_def p by simp
  qed
qed

lemma Push_returns:
  assumes "diag_ok M d" "nfail \<le> 1"
  shows "\<exists>q' d' out'. Push M W T clock nfail e d q = Inr (q', d', out') \<and> diag_ok M d'"
proof -
  have fl: "Flush M W (-1) clock d q =
     Inr ([], d, if q = [] then [] else [FlushTimeoutMessage (-1) (length q)])"
    by (rule Flush_nonpositive) simp
  from assms(2) obtain q0 out0 where
    i: "Push_insert M W clock nfail e d q = Inr (q0, d, out0)"
    by (cases "nfail = 0") (simp_all add: Push_insert_def fl)
  from Push_drain_returns [OF assms(1)] obtain q' d' out' where
    "Push_drain M W T e d q0 = Inr (q', d', out')" "diag_ok M d'" by blast
  with i show ?thesis by (simp add: Push_def)
qed

lemma step_returns:
  assumes "diag_ok M d" "op_ok x"
  shows "\<exists>q' d' out'. step M W T x (q, d, out) = Inr (q', d', out') \<and> diag_ok M d'"
proof (cases x)
  case (PushOp e nfail clock)
  with assms(2) have "nfail \<le> 1" by simp
  from Push_returns [OF assms(1) this] obtain q' d' out' where
    "Push M W T clock nfail e d q = Inr (q', d', out')" "diag_ok M d'" by blast
  with PushOp show ?thesis by simp
next
  case PopOp
  with assms(1) show ?thesis by (simp split: prod.splits)
next
  case (FlushOp max_time clock)
  from Flush_loop_returns [OF assms(1)] obtain d' out' where
    "Flush_loop M W max_time (clock 0) clock 1 d q [] = Inr ([], d', out')" "diag_ok M d'"
    by blast
  with FlushOp show ?thesis by (simp add: Flush_def)
qed

lemma run_returns:
  "diag_ok M d \<Longrightarrow> list_all op_ok ops \<Longrightarrow>
   \<exists>q' d' out'. run M W T ops (q, d, out) = Inr (q', d', out')"
proof (induction ops arbitrary: q d out)
  case Nil
  then show ?case by simp
next
  case (Cons x xs)
  from Cons.prems(2) have "op_ok x" "list_all op_ok xs" by simp_all
  from step_returns [OF Cons.prems(1) this(1)] obtain q1 d1 out1 where
    s: "step M W T x (q, d, out) = Inr (q1, d1, out1)" and ok: "diag_ok M d1" by blast
  from Cons.IH [OF ok \<open>list_all op_ok xs\<close>] s show ?case by simp
qed

subsection \<open>The order of emission\<close>


text \<open>The definitions needed to run the queue on given events.\<close>

lemmas eval_queue = Push_def Push_insert_def Push_drain_def IsFull_def span_def Pop_Cons
  Flush_def Flush_loop_Cons Flush_loop_Nil in_window_def event_less_def TimeDiff_def
  mk_event_def



subsection \<open>Flush without a deadline\<close>

text \<open>
  C1. The claim holds for a positive deadline that does not expire, and fails for the
  default: with \<^verbatim>\<open>max_time = -1\<close> the test \<^verbatim>\<open>max_time > 0\<close> is false in the first round,
  so \<^verbatim>\<open>Flush\<close> writes the timeout message and clears the buffer; no event is popped and
  neither \<^verbatim>\<open>HandleSingle\<close> nor \<^verbatim>\<open>HandleCoinc\<close> is called. Two buffered events, first with
  \<^verbatim>\<open>max_time = -1\<close>, then with a deadline of 5 seconds on a clock that stands still:
\<close>

theorem Flush_default_discards:
  "Flush 10 10 (-1) (\<lambda>k. 0) None [mk_event 1 100 0, mk_event 3 102 0]
     = Inr ([], None, [FlushTimeoutMessage (-1) 2])
   \<and> Flush 10 10 5 (\<lambda>k. 0) None [mk_event 1 100 0, mk_event 3 102 0]
     = Inr ([], None,
         [HandleCoinc (mk_event 1 100 0) (mk_event 3 102 0), HandleSingle (mk_event 1 100 0),
          HandleSingle (mk_event 3 102 0)])"
  by (simp add: eval_queue)

subsection \<open>Push pops at most once\<close>

text \<open>
  C2. \<^verbatim>\<open>Push\<close> calls \<^verbatim>\<open>Pop\<close> once if \<^verbatim>\<open>IsFull()\<close>, not until the queue is no longer
  full. With \<open>T = 1000\<close>, events at 0, 500, 1000 and 5000 are pushed: the last \<^verbatim>\<open>Push\<close>
  pops the event at 0 and returns with a buffered span of 4500.
\<close>

theorem Push_pops_once:
  "run 10 10 1000
     [PushOp (mk_event 1 0 0) 0 (\<lambda>k. 0), PushOp (mk_event 1 500 1) 0 (\<lambda>k. 0),
      PushOp (mk_event 1 1000 2) 0 (\<lambda>k. 0), PushOp (mk_event 1 5000 3) 0 (\<lambda>k. 0)]
     ([], None, [])
   = Inr ([mk_event 1 500 1, mk_event 1 1000 2, mk_event 1 5000 3], None,
          [HandleSingle (mk_event 1 0 0)])
   \<and> span [mk_event 1 500 1, mk_event 1 1000 2, mk_event 1 5000 3] = 4500
   \<and> IsFull 1000 [mk_event 1 500 1, mk_event 1 1000 2, mk_event 1 5000 3]"
  by (simp add: eval_queue)

subsection \<open>One Pop on a queue state\<close>




section \<open>Properties of the module collections and of the event handler\<close>

text \<open>
  C6. \<^verbatim>\<open>dragon::hion::Modules::unpack\<close> decodes nothing: for every event the modules
  are returned as they were, so after a reset they still hold the reset values, and the
  time stamp read by \<^verbatim>\<open>tstamp()\<close> is the one held before. A tail event with ADC, TDC and
  FPGA header banks, unpacked into modules that were just reset:
\<close>

theorem hion_unpack_no_decode:
  "hion_unpack event m = m
   \<and> hion_tstamp (hion_unpack event m) = hion_tstamp m
   \<and> hion_unpack
       \<lparr>event_id = DRAGON_TAIL_EVENT, trigger_time = 1005, serial = 0,
        banks = [(''TLQ0'', [100, 200]), (''TLT0'', [7]), (''TLTR'', [1005])]\<rparr>
       (hion_reset NONE
          \<lparr>v785 = [[1, 2], [3, 4]], hion_v1190b = [5, 6], hion_io32_tstamp = 0\<rparr>)
     = \<lparr>v785 = [[NONE, NONE], [NONE, NONE]], hion_v1190b = [NONE, NONE],
        hion_io32_tstamp = 0\<rparr>"
  by (simp add: hion_unpack_def hion_reset_def vme_reset_def)

text \<open>
  C10. For every event whose id is neither the head singles id nor the tail singles id,
  that is for the two scaler ids and for every unrecognised id, \<^verbatim>\<open>Process\<close> returns the
  state as it was: no detector record is changed, no histogram is filled, no entry is
  added to \<^verbatim>\<open>fHistos\<close>.
\<close>

theorem Process_ignores:
  assumes "GetEventId event \<noteq> DRAGON_HEAD_EVENT" and "GetEventId event \<noteq> DRAGON_TAIL_EVENT"
  shows "Process head_ops tail_ops event s = s"
  using assms by (simp add: Process_def Let_def)

theorem Process_ignores_witness:
  "GetEventId (mk_event 7 0 0) \<noteq> DRAGON_HEAD_EVENT
   \<and> GetEventId (mk_event 7 0 0) \<noteq> DRAGON_TAIL_EVENT
   \<and> Process \<lparr>reset_op = \<lambda>h. 0, unpack_op = \<lambda>e h. h + 1, calculate_op = \<lambda>h. h + (2::nat)\<rparr>
        \<lparr>reset_op = \<lambda>h. 0, unpack_op = \<lambda>e h. h + 1, calculate_op = \<lambda>h. h + (2::nat)\<rparr>
        (mk_event 7 0 0)
        \<lparr>gHead = 5, gTail = 6, scalers = [], fHistos = [1 \<mapsto> [0], 3 \<mapsto> [1]], fills = []\<rparr>
      = \<lparr>gHead = 5, gTail = 6, scalers = [], fHistos = [1 \<mapsto> [0], 3 \<mapsto> [1]], fills = []\<rparr>
   \<and> Process \<lparr>reset_op = \<lambda>h. 0, unpack_op = \<lambda>e h. h + 1, calculate_op = \<lambda>h. h + (2::nat)\<rparr>
        \<lparr>reset_op = \<lambda>h. 0, unpack_op = \<lambda>e h. h + 1, calculate_op = \<lambda>h. h + (2::nat)\<rparr>
        (mk_event 1 0 0)
        \<lparr>gHead = 5, gTail = 6, scalers = [], fHistos = [1 \<mapsto> [0], 3 \<mapsto> [1]], fills = []\<rparr>
      = \<lparr>gHead = 3, gTail = 6, scalers = [], fHistos = [1 \<mapsto> [0], 3 \<mapsto> [1]], fills = [0]\<rparr>"
proof -
  have h: "GetEventId (mk_event 7 0 0) \<noteq> DRAGON_HEAD_EVENT"
    by (simp add: GetEventId_def mk_event_def DRAGON_HEAD_EVENT_def)
  have t: "GetEventId (mk_event 7 0 0) \<noteq> DRAGON_TAIL_EVENT"
    by (simp add: GetEventId_def mk_event_def DRAGON_TAIL_EVENT_def)
  have p: "Process \<lparr>reset_op = \<lambda>h. 0, unpack_op = \<lambda>e h. h + 1, calculate_op = \<lambda>h. h + (2::nat)\<rparr>
        \<lparr>reset_op = \<lambda>h. 0, unpack_op = \<lambda>e h. h + 1, calculate_op = \<lambda>h. h + (2::nat)\<rparr>
        (mk_event 1 0 0)
        \<lparr>gHead = 5, gTail = 6, scalers = [], fHistos = [1 \<mapsto> [0], 3 \<mapsto> [1]], fills = []\<rparr>
      = \<lparr>gHead = 3, gTail = 6, scalers = [], fHistos = [1 \<mapsto> [0], 3 \<mapsto> [1]], fills = [0]\<rparr>"
    by (simp add: Process_def Let_def GetEventId_def mk_event_def DRAGON_HEAD_EVENT_def
        fill_histos_def fHistos_at_def handle_event_def)
  from Process_ignores [OF h t] h t p show ?thesis by simp
qed

text \<open>
  C7. \<^verbatim>\<open>Process\<close> does nothing with a scaler event: the cases \<^verbatim>\<open>DRAGON_HEAD_SCALER\<close> and
  \<^verbatim>\<open>DRAGON_TAIL_SCALER\<close> hold a \<^verbatim>\<open>break\<close> only. A head scaler event with 17 counts and a
  period of one second leaves \<^verbatim>\<open>count\<close>, \<^verbatim>\<open>sum\<close> and \<^verbatim>\<open>rate\<close> of the scaler at zero.
\<close>

theorem Process_scaler_event_inert:
  "Process \<lparr>reset_op = \<lambda>h. 0, unpack_op = \<lambda>e h. h + 1, calculate_op = \<lambda>h. h + (2::nat)\<rparr>
        \<lparr>reset_op = \<lambda>h. 0, unpack_op = \<lambda>e h. h + 1, calculate_op = \<lambda>h. h + (2::nat)\<rparr>
        \<lparr>event_id = DRAGON_HEAD_SCALER, trigger_time = 0, serial = 0,
         banks = [(''SCLR'', [1, 2, 3, 4, 5, 6, 7, 8, 9, 10, 11, 12, 13, 14, 15, 16, 17]),
                  (''SCHD'', [1000000])]\<rparr>
        \<lparr>gHead = 5, gTail = 6,
         scalers = [\<lparr>count = replicate MAX_CHANNELS 0, sum_s = replicate MAX_CHANNELS 0,
                     rate = replicate MAX_CHANNELS 0\<rparr>],
         fHistos = Map.empty, fills = []\<rparr>
   = \<lparr>gHead = 5, gTail = 6,
         scalers = [\<lparr>count = replicate MAX_CHANNELS 0, sum_s = replicate MAX_CHANNELS 0,
                     rate = replicate MAX_CHANNELS 0\<rparr>],
         fHistos = Map.empty, fills = []\<rparr>"
  by (simp add: Process_def Let_def GetEventId_def DRAGON_HEAD_SCALER_def DRAGON_HEAD_EVENT_def
      DRAGON_TAIL_EVENT_def)

end
